theory Spec2Isabelle
  imports Main "HOL-Library.Word"
begin

section \<open>Python values, exceptions and the outside world\<close>

text \<open>
  The program (\<^verbatim>\<open>app.py\<close>) is sequential glue around three external providers: a quote
  provider (\<^verbatim>\<open>yf.Ticker(symbol).info\<close>), a search provider (\<^verbatim>\<open>DDGS().text\<close>) and a
  language-model provider (\<^verbatim>\<open>client.chat.completions.create\<close>). The providers are not part of
  the program; they are the fields of a record \<open>world\<close>, and every theorem below holds for
  every world. A Python \<^verbatim>\<open>str\<close> is modelled by its UTF-8 bytes, a Python \<^verbatim>\<open>float\<close> by the
  64 bits of its IEEE double. The float primitives of the Python runtime (conversion from
  \<^verbatim>\<open>int\<close>, true division, \<^verbatim>\<open>format(x, '.2f')\<close>, \<^verbatim>\<open>repr\<close>) and the escaping done by
  \<^verbatim>\<open>repr\<close> of a \<^verbatim>\<open>str\<close> are the fields of a record \<open>runtime\<close>; the theorems hold for every
  runtime too.
\<close>

type_synonym pyfloat = "64 word"

datatype pyval = PNone | PInt int | PFloat pyfloat | PStr string

text \<open>Exceptions raised by the providers are instances of \<^verbatim>\<open>Exception\<close>.\<close>

datatype exn = TypeError | KeyError string | IndexError | OverflowError | ProviderError string

text \<open>A search result, as the program reads it: \<^verbatim>\<open>article['title']\<close>, \<^verbatim>\<open>article['body']\<close>.\<close>

record article =
  title :: string
  body :: string

record chat_message =
  role :: string
  content :: string

record chat_request =
  model :: string
  messages :: "chat_message list"
  temperature :: pyfloat

record choice =
  message :: chat_message

record chat_completion =
  choices :: "choice list"

record world =
  yf_info :: "string \<Rightarrow> exn + (string \<rightharpoonup> pyval)"
  ddgs_text :: "string \<Rightarrow> nat \<Rightarrow> exn + article list"
  chat_create :: "chat_request \<Rightarrow> exn + chat_completion"

record runtime =
  float_of_int :: "int \<Rightarrow> exn + pyfloat"
  float_truediv :: "pyfloat \<Rightarrow> pyfloat \<Rightarrow> pyfloat"
  float_format_2f :: "pyfloat \<Rightarrow> string"
  float_repr :: "pyfloat \<Rightarrow> string"
  str_repr_escaped :: "string \<Rightarrow> string"

subsection \<open>Calls to the outside and to the user interface, in the order they happen\<close>

datatype event =
    Spinner string
  | QuoteRequest string
  | NewsRequest string nat
  | ChatRequest chat_request
  | StError string
  | StWarning string
  | StSubheader string
  | StWrite string
  | StColumns nat
  | StMetric string pyval
  | StCaption string

text \<open>
  A run either goes on with a value, or ends: by \<^verbatim>\<open>st.stop()\<close>, or by an exception that
  nothing catches.
\<close>

datatype abort = Stop | Uncaught exn

type_synonym 'a io = "event list \<times> (abort + 'a)"

definition io_return :: "'a \<Rightarrow> 'a io" where
  "io_return x = ([], Inr x)"

definition io_emit :: "event \<Rightarrow> unit io" where
  "io_emit ev = ([ev], Inr ())"

definition io_raise :: "exn \<Rightarrow> 'a io" where
  "io_raise e = ([], Inl (Uncaught e))"

definition st_stop :: "'a io" where
  "st_stop = ([], Inl Stop)"

definition io_bind :: "'a io \<Rightarrow> ('a \<Rightarrow> 'b io) \<Rightarrow> 'b io" where
  "io_bind m f =
     (case m of
        (tr, Inl a) \<Rightarrow> (tr, Inl a)
      | (tr, Inr x) \<Rightarrow> (case f x of (tr', r) \<Rightarrow> (tr @ tr', r)))"

section \<open>The Quote Fetcher: \<^verbatim>\<open>get_stock_info\<close>\<close>

text \<open>
  The returned dict literal keeps its insertion order (it is later serialised with
  \<^verbatim>\<open>str\<close>), so it is an association list. \<^verbatim>\<open>info.get(k, 'N/A')\<close> gives the default only when
  the key is missing.
\<close>

type_synonym snapshot = "(string \<times> pyval) list"

definition dict_get :: "(string \<rightharpoonup> pyval) \<Rightarrow> string \<Rightarrow> pyval \<Rightarrow> pyval" where
  "dict_get d k dflt = (case d k of None \<Rightarrow> dflt | Some v \<Rightarrow> v)"

definition get_stock_info :: "world \<Rightarrow> string \<Rightarrow> (snapshot option) io" where
  "get_stock_info w symbol =
     io_bind (io_emit (QuoteRequest symbol)) (\<lambda>_.
       case yf_info w symbol of
         Inl e \<Rightarrow> io_return None
       | Inr info \<Rightarrow> io_return (Some
           [(''currentPrice'', dict_get info ''currentPrice'' (PStr ''N/A'')),
            (''peRatio'', dict_get info ''trailingPE'' (PStr ''N/A'')),
            (''marketCap'', dict_get info ''marketCap'' (PStr ''N/A'')),
            (''analystRating'', dict_get info ''recommendationMean'' (PStr ''N/A'')),
            (''dividendYield'', dict_get info ''dividendYield'' (PStr ''N/A'')),
            (''52WeekHigh'', dict_get info ''fiftyTwoWeekHigh'' (PStr ''N/A'')),
            (''52WeekLow'', dict_get info ''fiftyTwoWeekLow'' (PStr ''N/A''))]))"

text \<open>The seven fields of the Quote Snapshot, each with the provider key it is read from.\<close>

definition snapshot_fields :: "(string \<times> string) list" where
  "snapshot_fields =
     [(''currentPrice'', ''currentPrice''),
      (''peRatio'', ''trailingPE''),
      (''marketCap'', ''marketCap''),
      (''analystRating'', ''recommendationMean''),
      (''dividendYield'', ''dividendYield''),
      (''52WeekHigh'', ''fiftyTwoWeekHigh''),
      (''52WeekLow'', ''fiftyTwoWeekLow'')]"

section \<open>Strings and lists of the Python runtime\<close>

text \<open>\<^verbatim>\<open>sep.join(xs)\<close>.\<close>

fun py_join :: "string \<Rightarrow> string list \<Rightarrow> string" where
  "py_join sep [] = []"
| "py_join sep [x] = x"
| "py_join sep (x # y # ys) = x @ sep @ py_join sep (y # ys)"

text \<open>\<^verbatim>\<open>s.split(sep)\<close> for a separator of one character; the result is never empty.\<close>

fun py_split :: "char \<Rightarrow> string \<Rightarrow> string list" where
  "py_split sep [] = [] # []"
| "py_split sep (c # cs) =
     (if c = sep then [] # py_split sep cs
      else (case py_split sep cs of [] \<Rightarrow> [c] # [] | x # xs \<Rightarrow> (c # x) # xs))"

text \<open>\<^verbatim>\<open>xs[0]\<close> raises \<^verbatim>\<open>IndexError\<close> on an empty list.\<close>

definition subscript0 :: "'a list \<Rightarrow> 'a io" where
  "subscript0 xs = (case xs of [] \<Rightarrow> io_raise IndexError | x # _ \<Rightarrow> io_return x)"

text \<open>
  \<^verbatim>\<open>str\<close> of an \<^verbatim>\<open>int\<close>: decimal digits, with a minus sign. (The limit that recent Python
  versions put on the number of digits, 4300 by default, is not modelled.)
\<close>

definition digit_char :: "nat \<Rightarrow> char" where
  "digit_char d = char_of (48 + d)"

fun nat_str :: "nat \<Rightarrow> string" where
  "nat_str n = (if n < 10 then [digit_char n] else nat_str (n div 10) @ [digit_char (n mod 10)])"

declare nat_str.simps [simp del]

definition int_str :: "int \<Rightarrow> string" where
  "int_str i = (if i < 0 then CHR ''-'' # nat_str (nat (- i)) else nat_str (nat i))"

text \<open>
  \<^verbatim>\<open>repr\<close> of a \<^verbatim>\<open>str\<close>: a string of printable ASCII characters with no quote and no backslash
  is put between single quotes as it is; every other string goes through the runtime's
  escaping.
\<close>

definition plain_char :: "char \<Rightarrow> bool" where
  "plain_char c = (32 \<le> (of_char c :: nat) \<and> (of_char c :: nat) \<le> 126
                   \<and> c \<noteq> CHR 0x27 \<and> c \<noteq> CHR 0x5C)"

definition str_repr :: "runtime \<Rightarrow> string \<Rightarrow> string" where
  "str_repr rt s =
     (if list_all plain_char s then [CHR 0x27] @ s @ [CHR 0x27] else str_repr_escaped rt s)"

definition py_repr :: "runtime \<Rightarrow> pyval \<Rightarrow> string" where
  "py_repr rt v =
     (case v of
        PNone \<Rightarrow> ''None''
      | PInt i \<Rightarrow> int_str i
      | PFloat x \<Rightarrow> float_repr rt x
      | PStr s \<Rightarrow> str_repr rt s)"

text \<open>\<^verbatim>\<open>str(v)\<close>, which is also what an f-string field with no format specification gives.\<close>

definition py_str :: "runtime \<Rightarrow> pyval \<Rightarrow> string" where
  "py_str rt v = (case v of PStr s \<Rightarrow> s | _ \<Rightarrow> py_repr rt v)"

text \<open>\<^verbatim>\<open>str(stock_info)\<close>, where \<^verbatim>\<open>stock_info\<close> is a dict or \<^verbatim>\<open>None\<close>.\<close>

definition dict_str :: "runtime \<Rightarrow> snapshot \<Rightarrow> string" where
  "dict_str rt d =
     ''{'' @ py_join '', '' (map (\<lambda>(k, v). str_repr rt k @ '': '' @ py_repr rt v) d) @ ''}''"

definition stock_info_str :: "runtime \<Rightarrow> snapshot option \<Rightarrow> string" where
  "stock_info_str rt stock_info =
     (case stock_info of None \<Rightarrow> ''None'' | Some d \<Rightarrow> dict_str rt d)"

section \<open>The News Fetcher: \<^verbatim>\<open>get_news_articles\<close>\<close>

definition get_news_articles :: "world \<Rightarrow> string \<Rightarrow> (article list) io" where
  "get_news_articles w company_name =
     io_bind (io_emit (NewsRequest (company_name @ '' stock news'') 5)) (\<lambda>_.
       case ddgs_text w (company_name @ '' stock news'') 5 of
         Inl e \<Rightarrow> io_raise e
       | Inr results \<Rightarrow> io_return (map (\<lambda>result. result) results))"

section \<open>The Prompt Builder and the Analysis Generator: \<^verbatim>\<open>generate_response\<close>\<close>

text \<open>
  The template \<^verbatim>\<open>system_prompt\<close> has two replacement fields and no other brace;
  \<^verbatim>\<open>system_prompt.format(stock_info=..., news_articles=...)\<close> is the text before the first
  field, the first argument, the text between the fields, the second argument and the text
  after the second field.
\<close>

definition system_prompt_head :: string where
  "system_prompt_head =
     ''You are an expert Indian financial analyst. Analyze the given stock information and news articles to answer the query.\<newline>''
     @ ''    \<newline>''
     @ ''    Stock Information:\<newline>''
     @ ''    ''"

definition system_prompt_mid :: string where
  "system_prompt_mid =
     ''\<newline>''
     @ ''    \<newline>''
     @ ''    Recent News:\<newline>''
     @ ''    ''"

definition system_prompt_tail :: string where
  "system_prompt_tail =
     ''\<newline>''
     @ ''    \<newline>''
     @ ''    Follow these guidelines:\<newline>''
     @ ''    1. Present key metrics clearly\<newline>''
     @ ''    2. Highlight relevant news impacts\<newline>''
     @ ''    3. Mention market trends if applicable\<newline>''
     @ ''    4. Maintain professional tone\<newline>''
     @ ''    5. Never provide direct investment advice unless explicitly asked\<newline>''
     @ ''    ''"

definition system_prompt_format :: "string \<Rightarrow> string \<Rightarrow> string" where
  "system_prompt_format stock_info news_articles =
     system_prompt_head @ stock_info @ system_prompt_mid @ news_articles @ system_prompt_tail"

definition article_line :: "article \<Rightarrow> string" where
  "article_line a = ''- '' @ title a @ '': '' @ body a"

definition news_block :: "article list \<Rightarrow> string" where
  "news_block news_articles = py_join ''\<newline>'' (map article_line news_articles)"

definition user_prompt :: "string \<Rightarrow> string" where
  "user_prompt query = ''Query: '' @ query @ ''\<newline>\<newline>Provide detailed analysis:''"

text \<open>The literal \<^verbatim>\<open>0.3\<close> is the double \<^verbatim>\<open>0x3FD3333333333333\<close>.\<close>

definition float_0_3 :: pyfloat where
  "float_0_3 = 0x3FD3333333333333"

text \<open>The two messages of the request: the Prompt Builder of the specification.\<close>

definition build_messages ::
  "runtime \<Rightarrow> string \<Rightarrow> snapshot option \<Rightarrow> article list \<Rightarrow> chat_message list" where
  "build_messages rt query stock_info news_articles =
     [\<lparr>role = ''system'',
       content = system_prompt_format (stock_info_str rt stock_info) (news_block news_articles)\<rparr>,
      \<lparr>role = ''user'', content = user_prompt query\<rparr>]"

text \<open>The keyword arguments of \<^verbatim>\<open>client.chat.completions.create\<close>.\<close>

definition build_request ::
  "runtime \<Rightarrow> string \<Rightarrow> snapshot option \<Rightarrow> article list \<Rightarrow> chat_request" where
  "build_request rt query stock_info news_articles =
     \<lparr>model = ''gpt-4-turbo'',
      messages = build_messages rt query stock_info news_articles,
      temperature = float_0_3\<rparr>"

definition generate_response ::
  "runtime \<Rightarrow> world \<Rightarrow> string \<Rightarrow> snapshot option \<Rightarrow> article list \<Rightarrow> string io" where
  "generate_response rt w query stock_info news_articles =
     (let request = build_request rt query stock_info news_articles
      in io_bind (io_emit (ChatRequest request)) (\<lambda>_.
           case chat_create w request of
             Inl e \<Rightarrow> io_raise e
           | Inr response \<Rightarrow>
               io_bind (subscript0 (choices response)) (\<lambda>c.
                 io_return (content (message c)))))"

section \<open>The Presentation Layer: the handler of the Analyze button\<close>

text \<open>\<^verbatim>\<open>not stock_info\<close>: true for \<^verbatim>\<open>None\<close> and for an empty dict.\<close>

definition py_not :: "snapshot option \<Rightarrow> bool" where
  "py_not stock_info = (case stock_info of None \<Rightarrow> True | Some d \<Rightarrow> d = [])"

text \<open>\<^verbatim>\<open>stock_info[k]\<close>.\<close>

definition subscript :: "snapshot option \<Rightarrow> string \<Rightarrow> pyval io" where
  "subscript stock_info k =
     (case stock_info of
        None \<Rightarrow> io_raise TypeError
      | Some d \<Rightarrow> (case map_of d k of None \<Rightarrow> io_raise (KeyError k) | Some v \<Rightarrow> io_return v))"

text \<open>\<^verbatim>\<open>v != s\<close> for a string \<^verbatim>\<open>s\<close>: a value that is not a string differs from it.\<close>

definition ne_str :: "pyval \<Rightarrow> string \<Rightarrow> bool" where
  "ne_str v s = (case v of PStr t \<Rightarrow> t \<noteq> s | _ \<Rightarrow> True)"

text \<open>The literal \<^verbatim>\<open>1e7\<close> is the double \<^verbatim>\<open>0x416312D000000000\<close>, ten million.\<close>

definition float_1e7 :: pyfloat where
  "float_1e7 = 0x416312D000000000"

text \<open>\<^verbatim>\<open>v/1e7\<close>: an \<^verbatim>\<open>int\<close> is converted first; \<^verbatim>\<open>None\<close> and strings raise \<^verbatim>\<open>TypeError\<close>.\<close>

definition truediv_1e7 :: "runtime \<Rightarrow> pyval \<Rightarrow> pyfloat io" where
  "truediv_1e7 rt v =
     (case v of
        PInt i \<Rightarrow> (case float_of_int rt i of
                     Inl e \<Rightarrow> io_raise e
                   | Inr x \<Rightarrow> io_return (float_truediv rt x float_1e7))
      | PFloat x \<Rightarrow> io_return (float_truediv rt x float_1e7)
      | PNone \<Rightarrow> io_raise TypeError
      | PStr _ \<Rightarrow> io_raise TypeError)"

text \<open>The rupee sign U+20B9 and the newspaper emoji U+1F4F0, in UTF-8.\<close>

definition rupee :: string where
  "rupee = [CHR 0xE2, CHR 0x82, CHR 0xB9]"

definition newspaper :: string where
  "newspaper = [CHR 0xF0, CHR 0x9F, CHR 0x93, CHR 0xB0]"

text \<open>
  The second argument of the Market Cap metric:
  \<^verbatim>\<open>f"<rupee>{stock_info['marketCap']/1e7:.2f} Cr" if stock_info['marketCap'] != 'N/A' else 'N/A'\<close>.
\<close>

definition market_cap_text :: "runtime \<Rightarrow> snapshot option \<Rightarrow> string io" where
  "market_cap_text rt stock_info =
     io_bind (subscript stock_info ''marketCap'') (\<lambda>v.
       if ne_str v ''N/A'' then
         io_bind (subscript stock_info ''marketCap'') (\<lambda>v'.
         io_bind (truediv_1e7 rt v') (\<lambda>x.
           io_return (rupee @ float_format_2f rt x @ '' Cr'')))
       else io_return ''N/A'')"

text \<open>The second argument of the Current Price metric: \<^verbatim>\<open>f"<rupee>{stock_info['currentPrice']}"\<close>.\<close>

definition current_price_text :: "runtime \<Rightarrow> snapshot option \<Rightarrow> string io" where
  "current_price_text rt stock_info =
     io_bind (subscript stock_info ''currentPrice'') (\<lambda>v.
       io_return (rupee @ py_str rt v))"

text \<open>The loop over \<^verbatim>\<open>news_articles[:3]\<close>.\<close>

fun show_articles :: "article list \<Rightarrow> unit io" where
  "show_articles [] = io_return ()"
| "show_articles (a # rest) =
     io_bind (io_emit (StWrite (newspaper @ '' **'' @ title a @ ''**''))) (\<lambda>_.
     io_bind (io_emit (StCaption (body a))) (\<lambda>_.
       show_articles rest))"

text \<open>
  The body of \<^verbatim>\<open>if st.button("Analyze"):\<close>. \<open>symbol\<close> and \<open>query\<close> are the two variables of
  the script at that point (\<open>symbol\<close> is the upper-cased text of the first input).
\<close>

definition analyze :: "runtime \<Rightarrow> world \<Rightarrow> string \<Rightarrow> string \<Rightarrow> unit io" where
  "analyze rt w symbol query =
     (if symbol \<noteq> [] \<and> query \<noteq> [] then
        io_bind (io_emit (Spinner ''Analyzing stock and market trends...'')) (\<lambda>_.
        io_bind (get_stock_info w symbol) (\<lambda>stock_info.
        io_bind (if py_not stock_info then
                   io_bind (io_emit (StError ''Invalid stock symbol or data unavailable'')) (\<lambda>_.
                     st_stop)
                 else io_return ()) (\<lambda>_.
        io_bind (subscript0 (py_split (CHR ''.'') symbol)) (\<lambda>company_name.
        io_bind (get_news_articles w company_name) (\<lambda>news_articles.
        io_bind (generate_response rt w query stock_info news_articles) (\<lambda>analysis.
        io_bind (io_emit (StSubheader (''Analysis for '' @ symbol))) (\<lambda>_.
        io_bind (io_emit (StWrite analysis)) (\<lambda>_.
        io_bind (io_emit (StSubheader ''Key Metrics'')) (\<lambda>_.
        io_bind (io_emit (StColumns 3)) (\<lambda>_.
        io_bind (subscript stock_info ''peRatio'') (\<lambda>pe_ratio.
        io_bind (io_emit (StMetric ''P/E Ratio'' pe_ratio)) (\<lambda>_.
        io_bind (market_cap_text rt stock_info) (\<lambda>market_cap.
        io_bind (io_emit (StMetric ''Market Cap'' (PStr market_cap))) (\<lambda>_.
        io_bind (current_price_text rt stock_info) (\<lambda>current_price.
        io_bind (io_emit (StMetric ''Current Price'' (PStr current_price))) (\<lambda>_.
        io_bind (io_emit (StSubheader ''Recent News Highlights'')) (\<lambda>_.
          show_articles (take 3 news_articles))))))))))))))))))
      else io_emit (StWarning ''Please enter both stock symbol and query''))"

definition analyze_button :: "runtime \<Rightarrow> world \<Rightarrow> bool \<Rightarrow> string \<Rightarrow> string \<Rightarrow> unit io" where
  "analyze_button rt w clicked symbol query =
     (if clicked then analyze rt w symbol query else io_return ())"

text \<open>What a run did: its trace, and which external calls the trace holds.\<close>

definition is_quote_request :: "event \<Rightarrow> bool" where
  "is_quote_request ev = (case ev of QuoteRequest _ \<Rightarrow> True | _ \<Rightarrow> False)"

definition is_news_request :: "event \<Rightarrow> bool" where
  "is_news_request ev = (case ev of NewsRequest _ _ \<Rightarrow> True | _ \<Rightarrow> False)"

definition is_chat_request :: "event \<Rightarrow> bool" where
  "is_chat_request ev = (case ev of ChatRequest _ \<Rightarrow> True | _ \<Rightarrow> False)"

definition is_network_call :: "event \<Rightarrow> bool" where
  "is_network_call ev = (is_quote_request ev \<or> is_news_request ev \<or> is_chat_request ev)"


subsection \<open>Names for the parts of a run\<close>

text \<open>The dict that \<^verbatim>\<open>get_stock_info\<close> builds from a provider response.\<close>

definition snapshot_of :: "(string \<rightharpoonup> pyval) \<Rightarrow> snapshot" where
  "snapshot_of info =
     map (\<lambda>(field, key). (field, dict_get info key (PStr ''N/A''))) snapshot_fields"

text \<open>\<^verbatim>\<open>symbol.split('.')[0]\<close> is the text before the first dot.\<close>

definition before_dot :: "string \<Rightarrow> string" where
  "before_dot symbol = takeWhile (\<lambda>c. c \<noteq> CHR ''.'') symbol"

text \<open>The trace up to the news request, and up to the first metric.\<close>

definition trace_to_news :: "string \<Rightarrow> event list" where
  "trace_to_news symbol =
     [Spinner ''Analyzing stock and market trends...'',
      QuoteRequest symbol,
      NewsRequest (before_dot symbol @ '' stock news'') 5]"

definition trace_to_pe ::
  "runtime \<Rightarrow> string \<Rightarrow> string \<Rightarrow> (string \<rightharpoonup> pyval) \<Rightarrow> article list \<Rightarrow> string
     \<Rightarrow> event list" where
  "trace_to_pe rt symbol query info arts analysis =
     trace_to_news symbol @
     [ChatRequest (build_request rt query (Some (snapshot_of info)) arts),
      StSubheader (''Analysis for '' @ symbol),
      StWrite analysis,
      StSubheader ''Key Metrics'',
      StColumns 3,
      StMetric ''P/E Ratio'' (dict_get info ''trailingPE'' (PStr ''N/A''))]"

definition article_events :: "article list \<Rightarrow> event list" where
  "article_events arts =
     concat (map (\<lambda>a. [StWrite (newspaper @ '' **'' @ title a @ ''**''), StCaption (body a)])
       arts)"

subsection \<open>A concrete world and runtime\<close>

text \<open>
  The provider knows a price and a market cap but no P/E ratio; it cannot resolve
  \<^verbatim>\<open>FAKE.NS\<close>; the search fails for the company \<^verbatim>\<open>DOWN\<close>. The runtime is Python's on the
  three floats that occur: \<^verbatim>\<open>float(170000000)\<close> is \<^verbatim>\<open>0x41A443FD00000000\<close>,
  \<^verbatim>\<open>170000000.0/1e7\<close> is \<^verbatim>\<open>17.0\<close>, that is \<^verbatim>\<open>0x4031000000000000\<close>, and
  \<^verbatim>\<open>format(17.0, '.2f')\<close> is \<^verbatim>\<open>'17.00'\<close>.
\<close>

definition ex_info :: "string \<rightharpoonup> pyval" where
  "ex_info = [''currentPrice'' \<mapsto> PInt 2500, ''marketCap'' \<mapsto> PInt 170000000]"

definition ex_articles :: "article list" where
  "ex_articles =
     [\<lparr>title = ''Q2 results'', body = ''Profit up''\<rparr>,
      \<lparr>title = ''New plant'', body = ''Capacity doubles''\<rparr>]"

definition ex_completion :: chat_completion where
  "ex_completion =
     \<lparr>choices = [\<lparr>message = \<lparr>role = ''assistant'', content = ''Fairly valued.''\<rparr>\<rparr>]\<rparr>"

definition ex_world :: world where
  "ex_world =
     \<lparr>yf_info = (\<lambda>symbol. if symbol = ''FAKE.NS'' then Inl (ProviderError ''not found'')
                           else if symbol = ''BARE.NS'' then Inr Map.empty
                           else Inr ex_info),
      ddgs_text = (\<lambda>keywords max_results.
                     if keywords = ''DOWN stock news'' then Inl (ProviderError ''timeout'')
                     else Inr (take max_results ex_articles)),
      chat_create = (\<lambda>request. Inr ex_completion)\<rparr>"

definition ex_runtime :: runtime where
  "ex_runtime =
     \<lparr>float_of_int = (\<lambda>i. if i = 170000000 then Inr 0x41A443FD00000000 else Inl OverflowError),
      float_truediv = (\<lambda>x y. if x = 0x41A443FD00000000 \<and> y = 0x416312D000000000
                              then 0x4031000000000000 else 0),
      float_format_2f = (\<lambda>x. if x = 0x4031000000000000 then ''17.00'' else ''0.00''),
      float_repr = (\<lambda>x. ''0.0''),
      str_repr_escaped = (\<lambda>s. s)\<rparr>"

definition ex_snapshot :: snapshot where
  "ex_snapshot =
     [(''currentPrice'', PInt 2500),
      (''peRatio'', PStr ''N/A''),
      (''marketCap'', PInt 170000000),
      (''analystRating'', PStr ''N/A''),
      (''dividendYield'', PStr ''N/A''),
      (''52WeekHigh'', PStr ''N/A''),
      (''52WeekLow'', PStr ''N/A'')]"

section \<open>How a run unfolds\<close>

lemma io_bind_Inr: "io_bind (tr, Inr x) f = (tr @ fst (f x), snd (f x))"
  by (simp add: io_bind_def split: prod.splits)

lemma io_bind_Inl: "io_bind (tr, Inl a) f = (tr, Inl a)"
  by (simp add: io_bind_def)

lemmas io_defs = io_return_def io_emit_def io_raise_def st_stop_def io_bind_Inr io_bind_Inl

lemma py_split_head: "\<exists>rest. py_split sep s = takeWhile (\<lambda>c. c \<noteq> sep) s # rest"
  by (induction s) (auto split: list.splits)

lemma subscript0_py_split:
  "subscript0 (py_split (CHR ''.'') s) = ([], Inr (before_dot s))"
  using py_split_head [of "CHR ''.''" s] by (auto simp: subscript0_def before_dot_def io_defs)

lemma get_stock_info_eq:
  "get_stock_info w symbol =
     ([QuoteRequest symbol],
      Inr (case yf_info w symbol of Inl e \<Rightarrow> None | Inr info \<Rightarrow> Some (snapshot_of info)))"
  by (simp add: get_stock_info_def io_defs snapshot_fields_def snapshot_of_def split: sum.splits)

lemma get_news_articles_eq:
  "get_news_articles w company_name =
     ([NewsRequest (company_name @ '' stock news'') 5],
      (case ddgs_text w (company_name @ '' stock news'') 5 of
         Inl e \<Rightarrow> Inl (Uncaught e)
       | Inr results \<Rightarrow> Inr results))"
  by (simp add: get_news_articles_def io_defs split: sum.splits)

lemma generate_response_eq:
  "generate_response rt w query stock_info news_articles =
     ([ChatRequest (build_request rt query stock_info news_articles)],
      (case chat_create w (build_request rt query stock_info news_articles) of
         Inl e \<Rightarrow> Inl (Uncaught e)
       | Inr response \<Rightarrow>
           (case choices response of
              [] \<Rightarrow> Inl (Uncaught IndexError)
            | c # _ \<Rightarrow> Inr (content (message c)))))"
  by (simp add: generate_response_def Let_def io_defs subscript0_def split: sum.splits list.splits)

lemma show_articles_eq:
  "show_articles arts = (article_events arts, Inr ())"
  by (induction arts) (simp_all add: io_defs article_events_def)

lemma snapshot_of_lookup:
  "map_of (snapshot_of info) ''peRatio'' = Some (dict_get info ''trailingPE'' (PStr ''N/A''))"
  "map_of (snapshot_of info) ''marketCap'' = Some (dict_get info ''marketCap'' (PStr ''N/A''))"
  "map_of (snapshot_of info) ''currentPrice'' = Some (dict_get info ''currentPrice'' (PStr ''N/A''))"
  by (simp_all add: snapshot_of_def snapshot_fields_def)

lemma snapshot_of_not_Nil: "snapshot_of info \<noteq> []"
  by (simp add: snapshot_of_def snapshot_fields_def)

lemma truediv_1e7_trace: "fst (truediv_1e7 rt v) = []"
  by (simp add: truediv_1e7_def io_defs split: pyval.splits sum.splits)

lemma market_cap_text_eq:
  "market_cap_text rt (Some (snapshot_of info)) =
     ([], (let v = dict_get info ''marketCap'' (PStr ''N/A'') in
           if ne_str v ''N/A'' then
             (case snd (truediv_1e7 rt v) of
                Inl a \<Rightarrow> Inl a
              | Inr x \<Rightarrow> Inr (rupee @ float_format_2f rt x @ '' Cr''))
           else Inr ''N/A''))"
proof -
  obtain r where r: "truediv_1e7 rt (dict_get info ''marketCap'' (PStr ''N/A'')) = ([], r)"
    using truediv_1e7_trace [of rt "dict_get info ''marketCap'' (PStr ''N/A'')"]
    by (cases "truediv_1e7 rt (dict_get info ''marketCap'' (PStr ''N/A''))") simp
  show ?thesis
    by (cases r) (simp_all add: market_cap_text_def subscript_def snapshot_of_lookup io_defs r Let_def)
qed

lemma current_price_text_eq:
  "current_price_text rt (Some (snapshot_of info)) =
     ([], Inr (rupee @ py_str rt (dict_get info ''currentPrice'' (PStr ''N/A''))))"
  by (simp add: current_price_text_def subscript_def snapshot_of_lookup io_defs)

lemma analyze_quote_failed:
  assumes "symbol \<noteq> []" "query \<noteq> []" "yf_info w symbol = Inl e"
  shows "analyze rt w symbol query =
     ([Spinner ''Analyzing stock and market trends...'', QuoteRequest symbol,
       StError ''Invalid stock symbol or data unavailable''], Inl Stop)"
  using assms by (simp add: analyze_def get_stock_info_eq py_not_def io_defs)

lemma analyze_news_failed:
  assumes "symbol \<noteq> []" "query \<noteq> []" "yf_info w symbol = Inr info"
    and "ddgs_text w (before_dot symbol @ '' stock news'') 5 = Inl e"
  shows "analyze rt w symbol query = (trace_to_news symbol, Inl (Uncaught e))"
  using assms
  by (simp add: analyze_def get_stock_info_eq py_not_def snapshot_of_not_Nil subscript0_py_split
      get_news_articles_eq trace_to_news_def io_defs)

lemma analyze_chat_failed:
  assumes "symbol \<noteq> []" "query \<noteq> []" "yf_info w symbol = Inr info"
    and "ddgs_text w (before_dot symbol @ '' stock news'') 5 = Inr arts"
    and "snd (generate_response rt w query (Some (snapshot_of info)) arts) = Inl a"
  shows "analyze rt w symbol query =
     (trace_to_news symbol @ [ChatRequest (build_request rt query (Some (snapshot_of info)) arts)],
      Inl a)"
proof -
  have g: "generate_response rt w query (Some (snapshot_of info)) arts =
      ([ChatRequest (build_request rt query (Some (snapshot_of info)) arts)], Inl a)"
    using assms(5) by (simp add: generate_response_eq)
  show ?thesis
    using assms(1-4)
    by (simp add: analyze_def get_stock_info_eq py_not_def snapshot_of_not_Nil subscript0_py_split
        get_news_articles_eq trace_to_news_def io_defs g)
qed

lemma analyze_chat_ok:
  assumes "symbol \<noteq> []" "query \<noteq> []" "yf_info w symbol = Inr info"
    and "ddgs_text w (before_dot symbol @ '' stock news'') 5 = Inr arts"
    and "snd (generate_response rt w query (Some (snapshot_of info)) arts) = Inr analysis"
  shows "analyze rt w symbol query =
     (case snd (market_cap_text rt (Some (snapshot_of info))) of
        Inl a \<Rightarrow> (trace_to_pe rt symbol query info arts analysis, Inl a)
      | Inr market_cap \<Rightarrow>
          (trace_to_pe rt symbol query info arts analysis @
           [StMetric ''Market Cap'' (PStr market_cap),
            StMetric ''Current Price''
              (PStr (rupee @ py_str rt (dict_get info ''currentPrice'' (PStr ''N/A'')))),
            StSubheader ''Recent News Highlights''] @
           article_events (take 3 arts),
           Inr ()))"
proof -
  have g: "generate_response rt w query (Some (snapshot_of info)) arts =
      ([ChatRequest (build_request rt query (Some (snapshot_of info)) arts)], Inr analysis)"
    using assms(5) by (simp add: generate_response_eq)
  obtain r where m: "market_cap_text rt (Some (snapshot_of info)) = ([], r)"
    by (simp add: market_cap_text_eq)
  show ?thesis
    using assms(1-4)
    by (cases r)
      (simp_all add: analyze_def get_stock_info_eq py_not_def snapshot_of_not_Nil
        subscript0_py_split get_news_articles_eq trace_to_news_def trace_to_pe_def io_defs g m
        subscript_def snapshot_of_lookup current_price_text_eq show_articles_eq)
qed


lemma no_metric_in_articles: "StMetric label m \<notin> set (article_events arts)"
  by (induction arts) (simp_all add: article_events_def)

lemma analyze_empty_input:
  assumes "symbol = [] \<or> query = []"
  shows "analyze rt w symbol query = ([StWarning ''Please enter both stock symbol and query''], Inr ())"
  using assms by (auto simp: analyze_def io_defs)

text \<open>Every run on non-empty inputs whose quote fetch succeeds has one of four shapes.\<close>

lemma analyze_shapes:
  assumes "symbol \<noteq> []" "query \<noteq> []" "yf_info w symbol = Inr info"
  shows "(\<exists>a. analyze rt w symbol query = (trace_to_news symbol, Inl a))
       \<or> (\<exists>arts a. analyze rt w symbol query =
             (trace_to_news symbol @ [ChatRequest (build_request rt query (Some (snapshot_of info)) arts)], Inl a))
       \<or> (\<exists>arts analysis a. analyze rt w symbol query = (trace_to_pe rt symbol query info arts analysis, Inl a))
       \<or> (\<exists>arts analysis market_cap.
             snd (market_cap_text rt (Some (snapshot_of info))) = Inr market_cap \<and>
             analyze rt w symbol query =
               (trace_to_pe rt symbol query info arts analysis @
                [StMetric ''Market Cap'' (PStr market_cap),
                 StMetric ''Current Price''
                   (PStr (rupee @ py_str rt (dict_get info ''currentPrice'' (PStr ''N/A'')))),
                 StSubheader ''Recent News Highlights''] @
                article_events (take 3 arts), Inr ()))"
proof (cases "ddgs_text w (before_dot symbol @ '' stock news'') 5")
  case (Inl e)
  with assms show ?thesis by (simp add: analyze_news_failed)
next
  case (Inr arts)
  show ?thesis
  proof (cases "snd (generate_response rt w query (Some (snapshot_of info)) arts)")
    case (Inl a)
    with assms Inr have "analyze rt w symbol query =
       (trace_to_news symbol @ [ChatRequest (build_request rt query (Some (snapshot_of info)) arts)], Inl a)"
      by (rule analyze_chat_failed)
    then show ?thesis by blast
  next
    case analysis: (Inr analysis)
    note ok = analyze_chat_ok [OF assms Inr analysis, of ]
    show ?thesis
    proof (cases "snd (market_cap_text rt (Some (snapshot_of info)))")
      case (Inl a)
      with ok have "analyze rt w symbol query = (trace_to_pe rt symbol query info arts analysis, Inl a)"
        by simp
      then show ?thesis by blast
    next
      case mc: (Inr market_cap)
      with ok have "analyze rt w symbol query =
               (trace_to_pe rt symbol query info arts analysis @
                [StMetric ''Market Cap'' (PStr market_cap),
                 StMetric ''Current Price''
                   (PStr (rupee @ py_str rt (dict_get info ''currentPrice'' (PStr ''N/A'')))),
                 StSubheader ''Recent News Highlights''] @
                article_events (take 3 arts), Inr ())"
        by simp
      with mc show ?thesis by blast
    qed
  qed
qed



lemma metric_in_trace:
  assumes "StMetric label m \<in> set (fst (analyze rt w symbol query))" "label \<noteq> ''P/E Ratio''"
  shows "\<exists>info market_cap. yf_info w symbol = Inr info \<and>
           snd (market_cap_text rt (Some (snapshot_of info))) = Inr market_cap \<and>
           (label = ''Market Cap'' \<and> m = PStr market_cap \<or>
            label = ''Current Price'' \<and>
              m = PStr (rupee @ py_str rt (dict_get info ''currentPrice'' (PStr ''N/A''))))"
proof -
  have ne: "symbol \<noteq> []" "query \<noteq> []"
    using assms(1) analyze_empty_input [of symbol query rt w] by auto
  show ?thesis
  proof (cases "yf_info w symbol")
    case (Inl e)
    with ne assms(1) show ?thesis by (simp add: analyze_quote_failed)
  next
    case (Inr info)
    from analyze_shapes [OF ne Inr, of rt] assms Inr show ?thesis
      by (auto simp: trace_to_news_def trace_to_pe_def no_metric_in_articles)
  qed
qed




section \<open>The claims\<close>

text \<open>
  C3. When the Analyze button is pressed and the ticker symbol or the query text is empty,
  the run consists of one warning: no quote request, no news request and no language-model
  request is made.
\<close>

theorem empty_input_no_network_call:
  assumes "symbol = [] \<or> query = []"
  shows "analyze_button rt w True symbol query =
           ([StWarning ''Please enter both stock symbol and query''], Inr ())
       \<and> filter is_network_call (fst (analyze_button rt w True symbol query)) = []"
  using assms
  by (simp add: analyze_button_def analyze_empty_input is_network_call_def
      is_quote_request_def is_news_request_def is_chat_request_def)

theorem empty_input_no_network_call_witness:
  "([] = ([]::string) \<or> ''anything'' = [])
   \<and> (analyze_button ex_runtime ex_world True [] ''anything'' =
           ([StWarning ''Please enter both stock symbol and query''], Inr ())
       \<and> filter is_network_call (fst (analyze_button ex_runtime ex_world True [] ''anything'')) = [])"
proof -
  have h: "[] = ([]::string) \<or> ''anything'' = []" by simp
  from h empty_input_no_network_call [OF h] show ?thesis by (rule conjI)
qed

text \<open>
  C2. When both inputs are non-empty and the Quote Fetcher returns its failure signal
  (\<^verbatim>\<open>None\<close>), the run is: the spinner, the quote request, the one generic error, and
  \<^verbatim>\<open>st.stop()\<close>. No news request and no language-model request is made.
\<close>

theorem quote_failure_short_circuits:
  assumes "symbol \<noteq> []" and "query \<noteq> []"
    and "snd (get_stock_info w symbol) = Inr None"
  shows "analyze_button rt w True symbol query =
           ([Spinner ''Analyzing stock and market trends...'',
             QuoteRequest symbol,
             StError ''Invalid stock symbol or data unavailable''], Inl Stop)
       \<and> filter is_news_request (fst (analyze_button rt w True symbol query)) = []
       \<and> filter is_chat_request (fst (analyze_button rt w True symbol query)) = []"
proof -
  from assms(3) obtain e where "yf_info w symbol = Inl e"
    by (auto simp: get_stock_info_eq split: sum.splits)
  with assms(1,2) show ?thesis
    by (simp add: analyze_button_def analyze_quote_failed is_news_request_def is_chat_request_def)
qed

theorem quote_failure_short_circuits_witness:
  "(''FAKE.NS'' \<noteq> [] \<and> ''why'' \<noteq> [] \<and> snd (get_stock_info ex_world ''FAKE.NS'') = Inr None)
   \<and> (analyze_button ex_runtime ex_world True ''FAKE.NS'' ''why'' =
           ([Spinner ''Analyzing stock and market trends...'',
             QuoteRequest ''FAKE.NS'',
             StError ''Invalid stock symbol or data unavailable''], Inl Stop)
       \<and> filter is_news_request (fst (analyze_button ex_runtime ex_world True ''FAKE.NS'' ''why'')) = []
       \<and> filter is_chat_request (fst (analyze_button ex_runtime ex_world True ''FAKE.NS'' ''why'')) = [])"
proof -
  have h1: "''FAKE.NS'' \<noteq> []" and h2: "''why'' \<noteq> []" by simp_all
  have h3: "snd (get_stock_info ex_world ''FAKE.NS'') = Inr None"
    by (simp add: get_stock_info_eq ex_world_def)
  from h1 h2 h3 quote_failure_short_circuits [OF h1 h2 h3] show ?thesis by blast
qed

text \<open>
  C9. When both inputs are non-empty, the quote fetch succeeds and the search provider
  raises an exception, \<^verbatim>\<open>get_news_articles\<close> raises that exception and so does the whole run:
  it ends after the news request with the exception uncaught, with no language-model request
  and nothing rendered.
\<close>

theorem news_failure_propagates:
  assumes "symbol \<noteq> []" and "query \<noteq> []"
    and "yf_info w symbol = Inr info"
    and "ddgs_text w (before_dot symbol @ '' stock news'') 5 = Inl e"
  shows "snd (get_news_articles w (before_dot symbol)) = Inl (Uncaught e)
       \<and> analyze_button rt w True symbol query =
           ([Spinner ''Analyzing stock and market trends...'',
             QuoteRequest symbol,
             NewsRequest (before_dot symbol @ '' stock news'') 5], Inl (Uncaught e))
       \<and> filter is_chat_request (fst (analyze_button rt w True symbol query)) = []"
  using assms
  by (simp add: analyze_button_def analyze_news_failed get_news_articles_eq trace_to_news_def
      is_chat_request_def)

theorem news_failure_propagates_witness:
  "(''DOWN.NS'' \<noteq> [] \<and> ''why'' \<noteq> [] \<and> yf_info ex_world ''DOWN.NS'' = Inr ex_info
     \<and> ddgs_text ex_world (before_dot ''DOWN.NS'' @ '' stock news'') 5 = Inl (ProviderError ''timeout''))
   \<and> (snd (get_news_articles ex_world (before_dot ''DOWN.NS'')) = Inl (Uncaught (ProviderError ''timeout''))
       \<and> analyze_button ex_runtime ex_world True ''DOWN.NS'' ''why'' =
           ([Spinner ''Analyzing stock and market trends...'',
             QuoteRequest ''DOWN.NS'',
             NewsRequest (before_dot ''DOWN.NS'' @ '' stock news'') 5], Inl (Uncaught (ProviderError ''timeout'')))
       \<and> filter is_chat_request (fst (analyze_button ex_runtime ex_world True ''DOWN.NS'' ''why'')) = [])"
proof -
  have h1: "''DOWN.NS'' \<noteq> []" and h2: "''why'' \<noteq> []" by simp_all
  have h3: "yf_info ex_world ''DOWN.NS'' = Inr ex_info" by (simp add: ex_world_def)
  have h4: "ddgs_text ex_world (before_dot ''DOWN.NS'' @ '' stock news'') 5 = Inl (ProviderError ''timeout'')"
    by (simp add: ex_world_def before_dot_def)
  from h1 h2 h3 h4 news_failure_propagates [OF h1 h2 h3 h4] show ?thesis by blast
qed



lemma py_split_no_sep: "sep \<notin> set x \<Longrightarrow> py_split sep x = [x]"
  by (induction x) auto

lemma py_split_append: "sep \<notin> set x \<Longrightarrow> py_split sep (x @ sep # rest) = x # py_split sep rest"
  by (induction x) auto

lemma py_split_join:
  assumes "xs \<noteq> []" and "\<forall>x \<in> set xs. sep \<notin> set x"
  shows "py_split sep (py_join [sep] xs) = xs"
  using assms
  by (induction "[sep]" xs rule: py_join.induct) (simp_all add: py_split_no_sep py_split_append)

lemma py_join_Cons: "py_join sep (x # xs) = (if xs = [] then x else x @ sep @ py_join sep xs)"
  by (cases xs) simp_all

lemma newline_in_article_line:
  "CHR ''\<newline>'' \<in> set (article_line a) \<longleftrightarrow> CHR ''\<newline>'' \<in> set (title a) \<or> CHR ''\<newline>'' \<in> set (body a)"
  by (auto simp: article_line_def)

text \<open>
  C7. The news part of the system text is the lines \<^verbatim>\<open>- <title>: <snippet>\<close> of the
  articles, in the order of the sequence, joined by newlines; it stands in the system text
  between the text before \<^verbatim>\<open>{news_articles}\<close> and the text after it. An empty sequence gives
  an empty news part. When no title and no snippet holds a newline, splitting the news part of
  a non-empty sequence at the newlines gives back exactly one line per article, in order.
\<close>

theorem news_block_one_line_per_item:
  "news_block [] = []
   \<and> news_block (a # arts) =
       (if arts = [] then ''- '' @ title a @ '': '' @ body a
        else ''- '' @ title a @ '': '' @ body a @ ''\<newline>'' @ news_block arts)
   \<and> map content (build_messages rt query stock_info news_articles) =
       [system_prompt_head @ stock_info_str rt stock_info @ system_prompt_mid
          @ news_block news_articles @ system_prompt_tail,
        user_prompt query]
   \<and> (news_articles \<noteq> [] \<and>
        (\<forall>a \<in> set news_articles. CHR ''\<newline>'' \<notin> set (title a) \<and> CHR ''\<newline>'' \<notin> set (body a))
      \<longrightarrow> py_split (CHR ''\<newline>'') (news_block news_articles) =
            map (\<lambda>a. ''- '' @ title a @ '': '' @ body a) news_articles)"
proof (intro conjI impI)
  show "news_block [] = []" by (simp add: news_block_def)
  show "news_block (a # arts) =
       (if arts = [] then ''- '' @ title a @ '': '' @ body a
        else ''- '' @ title a @ '': '' @ body a @ ''\<newline>'' @ news_block arts)"
    by (simp add: news_block_def py_join_Cons article_line_def)
  show "map content (build_messages rt query stock_info news_articles) =
       [system_prompt_head @ stock_info_str rt stock_info @ system_prompt_mid
          @ news_block news_articles @ system_prompt_tail,
        user_prompt query]"
    by (simp add: build_messages_def system_prompt_format_def)
next
  assume h: "news_articles \<noteq> [] \<and>
        (\<forall>a \<in> set news_articles. CHR ''\<newline>'' \<notin> set (title a) \<and> CHR ''\<newline>'' \<notin> set (body a))"
  then have "\<forall>x \<in> set (map article_line news_articles). CHR ''\<newline>'' \<notin> set x"
    by (simp add: newline_in_article_line)
  moreover from h have "map article_line news_articles \<noteq> []" by simp
  ultimately have "py_split (CHR ''\<newline>'') (py_join [CHR ''\<newline>''] (map article_line news_articles))
      = map article_line news_articles"
    by (rule py_split_join [rotated])
  then show "py_split (CHR ''\<newline>'') (news_block news_articles) =
            map (\<lambda>a. ''- '' @ title a @ '': '' @ body a) news_articles"
    by (simp add: news_block_def article_line_def)
qed


theorem news_block_one_line_per_item_witness:
  "ex_articles \<noteq> []
   \<and> py_split (CHR ''\<newline>'') (news_block ex_articles) =
         map (\<lambda>a. ''- '' @ title a @ '': '' @ body a) ex_articles
   \<and> map (\<lambda>a. ''- '' @ title a @ '': '' @ body a) ex_articles =
         [''- Q2 results: Profit up'', ''- New plant: Capacity doubles'']"
proof -
  have h: "ex_articles \<noteq> [] \<and>
      (\<forall>a \<in> set ex_articles. CHR ''\<newline>'' \<notin> set (title a) \<and> CHR ''\<newline>'' \<notin> set (body a))"
    by (simp add: ex_articles_def)
  have "ex_articles \<noteq> [] \<and>
      (\<forall>a \<in> set ex_articles. CHR ''\<newline>'' \<notin> set (title a) \<and> CHR ''\<newline>'' \<notin> set (body a))
    \<longrightarrow> py_split (CHR ''\<newline>'') (news_block ex_articles) =
         map (\<lambda>a. ''- '' @ title a @ '': '' @ body a) ex_articles"
    by (rule news_block_one_line_per_item
        [where news_articles = ex_articles, THEN conjunct2, THEN conjunct2, THEN conjunct2])
  from this h have c: "py_split (CHR ''\<newline>'') (news_block ex_articles) =
         map (\<lambda>a. ''- '' @ title a @ '': '' @ body a) ex_articles"
    by (rule mp)
  have l: "map (\<lambda>a. ''- '' @ title a @ '': '' @ body a) ex_articles =
         [''- Q2 results: Profit up'', ''- New plant: Capacity doubles'']"
    by (simp add: ex_articles_def)
  from h have n: "ex_articles \<noteq> []" by (rule conjunct1)
  from n c l show ?thesis by (intro conjI)
qed


lemma before_dot_no_dot: "CHR ''.'' \<notin> set symbol \<Longrightarrow> before_dot symbol = symbol"
  by (induction symbol) (auto simp: before_dot_def)




text \<open>
  C5. The two text blocks that \<^verbatim>\<open>generate_response\<close> sends are a function of the query, the
  snapshot and the news sequence alone: whatever the providers do (two calls in two different
  worlds), the request is the same, and its two contents are the formatted template and the
  query text.
\<close>

theorem prompt_is_function_of_inputs:
  "fst (generate_response rt w1 query stock_info news_articles) =
     fst (generate_response rt w2 query stock_info news_articles)
   \<and> fst (generate_response rt w1 query stock_info news_articles) =
       [ChatRequest \<lparr>model = ''gpt-4-turbo'',
                      messages = build_messages rt query stock_info news_articles,
                      temperature = float_0_3\<rparr>]
   \<and> map content (build_messages rt query stock_info news_articles) =
       [system_prompt_format (stock_info_str rt stock_info) (news_block news_articles),
        ''Query: '' @ query @ ''\<newline>\<newline>Provide detailed analysis:'']"
  by (simp add: generate_response_eq build_request_def build_messages_def user_prompt_def)

theorem prompt_is_function_of_inputs_witness:
  "fst (generate_response ex_runtime ex_world ''why'' (Some ex_snapshot) ex_articles) =
     fst (generate_response ex_runtime (ex_world\<lparr>chat_create := \<lambda>request. Inl (ProviderError ''rate limit'')\<rparr>)
            ''why'' (Some ex_snapshot) ex_articles)"
  by (rule prompt_is_function_of_inputs [THEN conjunct1])




lemma ex_chat_ok:
  "snd (generate_response ex_runtime ex_world query stock_info arts) = Inr ''Fairly valued.''"
  by (simp add: generate_response_eq ex_world_def ex_completion_def)

lemma ex_news_ok:
  "ddgs_text ex_world (before_dot ''RELIANCE.NS'' @ '' stock news'') 5 = Inr ex_articles"
  "ddgs_text ex_world (before_dot ''BARE.NS'' @ '' stock news'') 5 = Inr ex_articles"
  by (simp_all add: ex_world_def ex_articles_def before_dot_def)


lemma ex_market_cap_bare:
  "snd (market_cap_text ex_runtime (Some (snapshot_of Map.empty))) = Inr ''N/A''"
  by (simp add: market_cap_text_eq dict_get_def ne_str_def)




lemma ex_quote_bare: "yf_info ex_world ''BARE.NS'' = Inr Map.empty"
  by (simp add: ex_world_def)

lemma ex_run_bare:
  "analyze_button ex_runtime ex_world True ''BARE.NS'' ''why'' =
     (trace_to_pe ex_runtime ''BARE.NS'' ''why'' Map.empty ex_articles ''Fairly valued.'' @
      [StMetric ''Market Cap'' (PStr ''N/A''),
       StMetric ''Current Price'' (PStr (rupee @ ''N/A'')),
       StSubheader ''Recent News Highlights''] @
      article_events (take 3 ex_articles), Inr ())"
proof -
  have "''BARE.NS'' \<noteq> []" "''why'' \<noteq> []" by simp_all
  from analyze_chat_ok [OF this ex_quote_bare ex_news_ok(2) ex_chat_ok]
  show ?thesis by (simp add: analyze_button_def ex_market_cap_bare dict_get_def py_str_def)
qed

text \<open>
  C10. Whenever a run shows a Current Price metric, the quote fetch succeeded and the metric
  is the rupee sign followed by \<^verbatim>\<open>str\<close> of the current price field, whatever that field is.
  When the provider has no current price the field is \<^verbatim>\<open>'N/A'\<close> and the metric is the rupee
  sign followed by \<^verbatim>\<open>N/A\<close>, which is not the bare string \<^verbatim>\<open>'N/A'\<close>.
\<close>

theorem current_price_metric_prefixed:
  assumes "StMetric ''Current Price'' m \<in> set (fst (analyze_button rt w True symbol query))"
  shows "\<exists>info. yf_info w symbol = Inr info
       \<and> m = PStr (rupee @ py_str rt (dict_get info ''currentPrice'' (PStr ''N/A'')))
       \<and> (info ''currentPrice'' = None \<longrightarrow>
            m = PStr ([CHR 0xE2, CHR 0x82, CHR 0xB9] @ ''N/A'') \<and> m \<noteq> PStr ''N/A'')"
proof -
  from assms have "StMetric ''Current Price'' m \<in> set (fst (analyze rt w symbol query))"
    by (simp add: analyze_button_def)
  from metric_in_trace [OF this]
  obtain info where info: "yf_info w symbol = Inr info"
    and m: "m = PStr (rupee @ py_str rt (dict_get info ''currentPrice'' (PStr ''N/A'')))"
    by auto
  show ?thesis
  proof (intro exI conjI)
    show "yf_info w symbol = Inr info" by (fact info)
    show "m = PStr (rupee @ py_str rt (dict_get info ''currentPrice'' (PStr ''N/A'')))"
      by (fact m)
    show "info ''currentPrice'' = None \<longrightarrow>
            m = PStr ([CHR 0xE2, CHR 0x82, CHR 0xB9] @ ''N/A'') \<and> m \<noteq> PStr ''N/A''"
      by (simp add: m dict_get_def py_str_def rupee_def)
  qed
qed

theorem current_price_metric_prefixed_witness:
  "StMetric ''Current Price'' (PStr (rupee @ ''N/A''))
     \<in> set (fst (analyze_button ex_runtime ex_world True ''BARE.NS'' ''why''))
   \<and> (\<exists>info. yf_info ex_world ''BARE.NS'' = Inr info
       \<and> PStr (rupee @ ''N/A'') =
           PStr (rupee @ py_str ex_runtime (dict_get info ''currentPrice'' (PStr ''N/A'')))
       \<and> (info ''currentPrice'' = None \<longrightarrow>
            PStr (rupee @ ''N/A'') = PStr ([CHR 0xE2, CHR 0x82, CHR 0xB9] @ ''N/A'')
            \<and> PStr (rupee @ ''N/A'') \<noteq> PStr ''N/A''))"
proof -
  have h: "StMetric ''Current Price'' (PStr (rupee @ ''N/A''))
     \<in> set (fst (analyze_button ex_runtime ex_world True ''BARE.NS'' ''why''))"
    by (simp add: ex_run_bare)
  from h current_price_metric_prefixed [OF h] show ?thesis by (rule conjI)
qed

text \<open>
  Two values the provider may send that the handler does not expect: a key that is present
  with the value \<^verbatim>\<open>None\<close> is not replaced by \<^verbatim>\<open>'N/A'\<close>, and a market cap that is \<^verbatim>\<open>None\<close> or
  a string other than \<^verbatim>\<open>'N/A'\<close> makes the division raise \<^verbatim>\<open>TypeError\<close>.
\<close>

lemma null_value_passes_through:
  assumes "yf_info w symbol = Inr info" "info ''currentPrice'' = Some PNone"
  shows "\<exists>snap. snd (get_stock_info w symbol) = Inr (Some snap)
           \<and> map_of snap ''currentPrice'' = Some PNone"
  using assms by (simp add: get_stock_info_eq snapshot_of_def snapshot_fields_def dict_get_def)

lemma market_cap_not_number_raises:
  assumes "map_of d ''marketCap'' = Some v" "v = PNone \<or> (\<exists>s. v = PStr s \<and> s \<noteq> ''N/A'')"
  shows "market_cap_text rt (Some d) = ([], Inl (Uncaught TypeError))"
  using assms
  by (auto simp: market_cap_text_def subscript_def ne_str_def truediv_1e7_def io_defs)

end
